theory Spec2Isabelle
  imports Complex_Main
begin

section \<open>Data model of the upload and mock-analysis session (src/src/App.tsx)\<close>

text \<open>
  The component keeps its state in React hooks (lines 26-35) and changes it only through the
  handlers of lines 46-157. The embedding passes that state explicitly: every handler takes
  the state of the render in which it was created and returns the state after its setter
  calls. \<open>clearImage\<close>, which may be called again before the next render, takes the image
  its closure has captured as an argument of its own. A browser \<^verbatim>\<open>File\<close> is reduced to
  the three attributes the handlers read.
  Strings are lists of 8-bit characters; lower-casing is the ASCII one.
\<close>

record File =
  file_name :: string
  file_type :: string
  file_size :: nat

record AnalysisResult =
  isOriginal :: bool
  confidence :: real
  processedImageUrl :: "string option"
  processingTime :: real

record UploadedModel =
  model_file :: File
  model_name :: string
  model_size :: string
  uploadedAt :: nat

text \<open>An object URL is identified by the number of the \<^verbatim>\<open>URL.createObjectURL\<close> call that made it.\<close>

record UploadedImage =
  image_file :: File
  url :: nat
  image_name :: string
  image_size :: string

text \<open>
  What a suspended call of \<^verbatim>\<open>runAnalysis\<close> holds while its timer runs: the \<^verbatim>\<open>model\<close> and
  \<^verbatim>\<open>image\<close> of its closure (the values its guard tested) and the timer's delay in ms.
\<close>

record Suspended =
  seen_model :: "UploadedModel option"
  seen_image :: "UploadedImage option"
  delay :: real

text \<open>
  The hooks \<^verbatim>\<open>model\<close>, \<^verbatim>\<open>image\<close>, \<^verbatim>\<open>isAnalyzing\<close>, \<^verbatim>\<open>result\<close>, \<^verbatim>\<open>error\<close>; the value shown by each
  file input the refs point to (\<open>None\<close> when \<^verbatim>\<open>ref.current\<close> is null); and the part of the
  browser the handlers act on: the counter of object URLs, the log of
  \<^verbatim>\<open>URL.revokeObjectURL\<close> calls, and the suspended analyses. \<open>producedBy\<close> is a history
  variable: the suspended call whose resumption stored the latest result. The hooks
  \<^verbatim>\<open>dragOver\<close> and \<^verbatim>\<open>showResult\<close> only drive styling and are left out, and so is the
  mounting of the two inputs by rendering, which no handler performs.

  \<open>logFloor\<close> is the JavaScript runtime's \<^verbatim>\<open>Math.floor(Math.log(b) / Math.log(1024))\<close> as a
  function of the byte count \<open>b\<close>. The runtime computes it in double-precision arithmetic
  with its own \<^verbatim>\<open>Math.log\<close>, which is not reproduced here: it is a parameter of the model
  that no handler changes.
\<close>

record App =
  model :: "UploadedModel option"
  image_st :: "UploadedImage option"
  isAnalyzing :: bool
  result :: "AnalysisResult option"
  error :: "string option"
  modelInputRef :: "string option"
  imageInputRef :: "string option"
  nextUrl :: nat
  revoked :: "nat list"
  pending :: "Suspended list"
  producedBy :: "Suspended option"
  logFloor :: "nat \<Rightarrow> nat"

text \<open>The state of the first render, in a runtime \<open>rt\<close>.\<close>

definition initial_in :: "(nat \<Rightarrow> nat) \<Rightarrow> App" where
  "initial_in rt = \<lparr>model = None, image_st = None, isAnalyzing = False, result = None,
     error = None, modelInputRef = Some [], imageInputRef = Some [],
     nextUrl = 0, revoked = [], pending = [], producedBy = None, logFloor = rt\<rparr>"

section \<open>String helpers of the JavaScript runtime\<close>

definition toLowerCase_char :: "char \<Rightarrow> char" where
  "toLowerCase_char c =
     (case map_of (zip ''ABCDEFGHIJKLMNOPQRSTUVWXYZ'' ''abcdefghijklmnopqrstuvwxyz'') c of
        None \<Rightarrow> c
      | Some l \<Rightarrow> l)"

definition toLowerCase :: "string \<Rightarrow> string" where
  "toLowerCase s = map toLowerCase_char s"

text \<open>\<^verbatim>\<open>s.endsWith(t)\<close>: false when \<open>t\<close> is longer than \<open>s\<close>, else the last \<open>|t|\<close> characters are compared.\<close>

definition endsWith :: "string \<Rightarrow> string \<Rightarrow> bool" where
  "endsWith s t = (length t \<le> length s \<and> drop (length s - length t) s = t)"

definition startsWith :: "string \<Rightarrow> string \<Rightarrow> bool" where
  "startsWith s t = (length t \<le> length s \<and> take (length t) s = t)"

text \<open>Decimal digits of a natural number, as \<^verbatim>\<open>String(n)\<close> prints an integer below \<open>10^21\<close>.\<close>

definition digit :: "nat \<Rightarrow> char" where
  "digit d = ''0123456789'' ! (d mod 10)"

fun decimal :: "nat \<Rightarrow> string" where
  "decimal n = (if n < 10 then [digit n] else decimal (n div 10) @ [digit n])"

declare decimal.simps [simp del]

section \<open>formatFileSize (lines 46-52)\<close>

text \<open>
  The index \<^verbatim>\<open>i\<close> of line 50 is a quotient of two double-precision logarithms, floored; the
  function takes it from the runtime \<open>rt\<close>.

  \<open>floor_log k n\<close> is the floor of the exact logarithm: the number of times \<open>n\<close> can be
  divided by \<open>k\<close> before it drops below \<open>k\<close>. It is not the code's index. A runtime agrees
  with it where rounding does not carry the quotient across an integer, and differs from it
  elsewhere: at \<open>1024^5 - 1\<close> bytes double arithmetic gives 5 and \<open>floor_log\<close> gives 4. It
  serves as the runtime of the concrete states below, whose file sizes are far from that.
\<close>

fun floor_log :: "nat \<Rightarrow> nat \<Rightarrow> nat" where
  "floor_log k n = (if k < 2 \<or> n < k then 0 else Suc (floor_log k (n div k)))"

declare floor_log.simps [simp del]

text \<open>
  \<^verbatim>\<open>(bytes / Math.pow(k, i)).toFixed(2)\<close>: the quotient is exact in binary floating point
  (\<open>k\<close> is a power of two and a file size is an integer below \<open>2^53\<close>), and \<^verbatim>\<open>toFixed\<close> picks the integer \<open>n\<close> with \<open>n / 100\<close> nearest to it,
  the larger one on a tie. The function returns that \<open>n\<close>, the value in hundredths.
\<close>

definition toFixed2 :: "nat \<Rightarrow> nat \<Rightarrow> nat" where
  "toFixed2 bytes d = (200 * bytes + d) div (2 * d)"

text \<open>
  \<^verbatim>\<open>parseFloat(...) + ' '\<close> prints the number again without trailing zeros: the integer part,
  then at most two decimals.
\<close>

definition number_string :: "nat \<Rightarrow> string" where
  "number_string n =
     decimal (n div 100) @
     (if n mod 100 = 0 then []
      else CHR ''.'' # digit (n mod 100 div 10) # (if n mod 10 = 0 then [] else [digit (n mod 10)]))"

definition sizes :: "string list" where
  "sizes = [''Bytes'', ''KB'', ''MB'', ''GB'']"

text \<open>\<^verbatim>\<open>sizes[i]\<close> past the end of the array is \<^verbatim>\<open>undefined\<close>, which \<^verbatim>\<open>+\<close> prints as a word.\<close>

definition sizes_at :: "nat \<Rightarrow> string" where
  "sizes_at i = (if i < length sizes then sizes ! i else ''undefined'')"

definition formatFileSize :: "(nat \<Rightarrow> nat) \<Rightarrow> nat \<Rightarrow> string" where
  "formatFileSize rt bytes =
     (if bytes = 0 then ''0 Bytes''
      else let k = 1024; i = rt bytes
           in number_string (toFixed2 bytes (k ^ i)) @ '' '' @ sizes_at i)"

section \<open>Upload handlers (lines 54-84)\<close>

definition handleModelUpload :: "App \<Rightarrow> nat \<Rightarrow> File \<Rightarrow> App" where
  "handleModelUpload w now file =
     (if \<not> endsWith (toLowerCase (file_name file)) ''.pt''
      then w\<lparr>error := Some ''Please upload a valid PyTorch model file (.pt)''\<rparr>
      else w\<lparr>model := Some \<lparr>model_file = file, model_name = file_name file,
                              model_size = formatFileSize (logFloor w) (file_size file),
                              uploadedAt = now\<rparr>,
              error := None\<rparr>)"

definition handleImageUpload :: "App \<Rightarrow> File \<Rightarrow> App" where
  "handleImageUpload w file =
     (if \<not> startsWith (file_type file) ''image/''
      then w\<lparr>error := Some ''Please upload a valid image file''\<rparr>
      else w\<lparr>nextUrl := Suc (nextUrl w),
              image_st := Some \<lparr>image_file = file, url = nextUrl w, image_name = file_name file,
                                 image_size = formatFileSize (logFloor w) (file_size file)\<rparr>,
              error := None,
              result := None\<rparr>)"

section \<open>runAnalysis (lines 114-138)\<close>

text \<open>
  The call up to its \<^verbatim>\<open>await\<close>. \<open>rd\<close> is the value of \<^verbatim>\<open>Math.random()\<close> in the timer's delay.
\<close>

definition runAnalysis :: "App \<Rightarrow> real \<Rightarrow> App" where
  "runAnalysis w rd =
     (if model w = None \<or> image_st w = None then w
      else w\<lparr>isAnalyzing := True, error := None, result := None,
              pending := pending w @
                [\<lparr>seen_model = model w, seen_image = image_st w, delay = 2000 + rd * 3000\<rparr>]\<rparr>)"

text \<open>
  How the \<^verbatim>\<open>try\<close> block ends: it runs to its end with the three further values of
  \<^verbatim>\<open>Math.random()\<close>, or something in it throws before \<^verbatim>\<open>setResult\<close>.
\<close>

datatype outcome = Resolved real real real | Threw

text \<open>The record \<^verbatim>\<open>mockResult\<close> of lines 126-130, from its three random values.\<close>

definition mockResult :: "real \<Rightarrow> real \<Rightarrow> real \<Rightarrow> AnalysisResult" where
  "mockResult ro rc rp =
     \<lparr>isOriginal = (ro > 0.5), confidence = 0.75 + rc * 0.24, processedImageUrl = None,
      processingTime = 1.2 + rp * 2.3\<rparr>"

text \<open>The rest of the call after the \<^verbatim>\<open>await\<close>: \<^verbatim>\<open>try\<close> body or \<^verbatim>\<open>catch\<close>, then \<^verbatim>\<open>finally\<close>.\<close>

definition runAnalysis_resume :: "App \<Rightarrow> outcome \<Rightarrow> App" where
  "runAnalysis_resume w oc =
     (case oc of
        Resolved ro rc rp \<Rightarrow> w\<lparr>result := Some (mockResult ro rc rp)\<rparr>
      | Threw \<Rightarrow> w\<lparr>error := Some ''Analysis failed. Please try again.''\<rparr>)
     \<lparr>isAnalyzing := False\<rparr>"

text \<open>Resuming the \<open>k\<close>-th suspended call takes it off the list and notes it as the producer.\<close>

definition settle :: "App \<Rightarrow> nat \<Rightarrow> outcome \<Rightarrow> App" where
  "settle w k oc =
     (runAnalysis_resume w oc)
       \<lparr>pending := take k (pending w) @ drop (Suc k) (pending w),
        producedBy := (case oc of Resolved ro rc rp \<Rightarrow> Some (pending w ! k)
                                | Threw \<Rightarrow> producedBy w)\<rparr>"

section \<open>clearModel and clearImage (lines 140-157)\<close>

definition clearModel :: "App \<Rightarrow> App" where
  "clearModel w =
     w\<lparr>model := None, result := None,
       modelInputRef := (case modelInputRef w of None \<Rightarrow> None | Some v \<Rightarrow> Some [])\<rparr>"

text \<open>
  \<open>clearImage\<close> tests and revokes the \<^verbatim>\<open>image\<close> of its closure, the value the hook had in the
  render that created the closure (lines 27, 149-150): that is \<open>captured\<close>. Its setters act
  on the current state \<open>w\<close>. A closure called again before the next render still holds the
  image it captured.
\<close>

definition clearImage :: "UploadedImage option \<Rightarrow> App \<Rightarrow> App" where
  "clearImage captured w =
     w\<lparr>revoked := (case captured of None \<Rightarrow> revoked w | Some im \<Rightarrow> revoked w @ [url im]),
       image_st := None, result := None,
       imageInputRef := (case imageInputRef w of None \<Rightarrow> None | Some v \<Rightarrow> Some [])\<rparr>"

section \<open>The handlers as events\<close>

text \<open>
  One event per handler call or timer expiry. \<open>SubmitModel\<close> carries the clock reading that
  \<^verbatim>\<open>new Date()\<close> returns, \<open>RunAnalysis\<close> the random value of the delay, and \<open>Settle k\<close>
  resumes the \<open>k\<close>-th suspended analysis. \<open>DismissError\<close> is the close button of the alert
  (line 218). \<open>step\<close> lets any handler run in any state; only a resumption needs
  something to resume. An event calls the closure of the latest render, as the page does
  after it has rendered again: the image that \<open>clearImage\<close> has captured is then the stored
  one.
\<close>

datatype event =
    SubmitModel nat File
  | SubmitImage File
  | ClearModel
  | ClearImage
  | RunAnalysis real
  | Settle nat outcome
  | DismissError

fun step :: "App \<Rightarrow> event \<Rightarrow> App option" where
  "step w (SubmitModel now file) = Some (handleModelUpload w now file)"
| "step w (SubmitImage file) = Some (handleImageUpload w file)"
| "step w ClearModel = Some (clearModel w)"
| "step w ClearImage = Some (clearImage (image_st w) w)"
| "step w (RunAnalysis rd) = Some (runAnalysis w rd)"
| "step w (Settle k oc) = (if k < length (pending w) then Some (settle w k oc) else None)"
| "step w DismissError = Some (w\<lparr>error := None\<rparr>)"

fun exec :: "App \<Rightarrow> event list \<Rightarrow> App option" where
  "exec w [] = Some w"
| "exec w (e # es) = (case step w e of None \<Rightarrow> None | Some w' \<Rightarrow> exec w' es)"

section \<open>What the rendered page lets the user do (lines 212-410)\<close>

text \<open>
  The drop zone and file input of the model are rendered only under \<^verbatim>\<open>!model\<close> (line 247),
  its trash button only under \<^verbatim>\<open>model\<close> (line 237); the same for the image (lines 318 and
  308). The analysis button carries \<^verbatim>\<open>disabled={!model || !image || isAnalyzing}\<close>
  (line 380), and a disabled button delivers no click. The alert with its close button is
  rendered only under \<^verbatim>\<open>error\<close> (line 213). The timer's promise is only ever resolved.
\<close>

definition analyzeDisabled :: "App \<Rightarrow> bool" where
  "analyzeDisabled w = (model w = None \<or> image_st w = None \<or> isAnalyzing w)"

fun ui_offers :: "App \<Rightarrow> event \<Rightarrow> bool" where
  "ui_offers w (SubmitModel now file) = (model w = None)"
| "ui_offers w (SubmitImage file) = (image_st w = None)"
| "ui_offers w ClearModel = (model w \<noteq> None)"
| "ui_offers w ClearImage = (image_st w \<noteq> None)"
| "ui_offers w (RunAnalysis rd) = (\<not> analyzeDisabled w)"
| "ui_offers w (Settle k oc) = (oc \<noteq> Threw)"
| "ui_offers w DismissError = (error w \<noteq> None)"

definition ui_step :: "App \<Rightarrow> event \<Rightarrow> App option" where
  "ui_step w e = (if ui_offers w e then step w e else None)"

fun ui_exec :: "App \<Rightarrow> event list \<Rightarrow> App option" where
  "ui_exec w [] = Some w"
| "ui_exec w (e # es) = (case ui_step w e of None \<Rightarrow> None | Some w' \<Rightarrow> ui_exec w' es)"

section \<open>Properties of states\<close>

text \<open>
  The accepted model suffix, spelled out without lower-casing: the name ends in a dot, a
  \<open>p\<close> or \<open>P\<close>, and a \<open>t\<close> or \<open>T\<close>.
\<close>

definition ends_in_pt_ignoring_case :: "string \<Rightarrow> bool" where
  "ends_in_pt_ignoring_case s =
     (3 \<le> length s \<and> drop (length s - 3) s \<in> set [''.pt'', ''.pT'', ''.Pt'', ''.PT''])"

text \<open>Both entities were there when the suspended call started.\<close>

definition saw_both :: "Suspended \<Rightarrow> bool" where
  "saw_both p = (seen_model p \<noteq> None \<and> seen_image p \<noteq> None)"

text \<open>
  The invariant of the session: a stored result was produced by a call that saw a model and
  an image when it started, and the busy flag is set only while a call is suspended.
\<close>

definition session_inv :: "App \<Rightarrow> bool" where
  "session_inv w =
     ((result w \<noteq> None \<longrightarrow> (case producedBy w of None \<Rightarrow> False | Some p \<Rightarrow> saw_both p)) \<and>
      (isAnalyzing w \<longrightarrow> pending w \<noteq> []))"

text \<open>The facts about suspended calls that make \<open>session_inv\<close> inductive.\<close>

definition calls_inv :: "App \<Rightarrow> bool" where
  "calls_inv w =
     (list_all saw_both (pending w) \<and>
      (case producedBy w of None \<Rightarrow> result w = None | Some p \<Rightarrow> saw_both p) \<and>
      (isAnalyzing w \<longrightarrow> pending w \<noteq> []))"


text \<open>
  Every object URL created so far is the one of the stored image or has been revoked.
\<close>

definition no_orphan_url :: "App \<Rightarrow> bool" where
  "no_orphan_url w =
     list_all (\<lambda>u. u \<in> set (revoked w) \<or> map_option url (image_st w) = Some u)
       [0 ..< nextUrl w]"

section \<open>Concrete files and states\<close>

text \<open>The state of the first render in a runtime whose logarithms are exact.\<close>

definition initial :: App where
  "initial = initial_in (floor_log 1024)"

definition net_pt :: File where
  "net_pt = \<lparr>file_name = ''net.pt'', file_type = [], file_size = 2048\<rparr>"

definition NET_PT :: File where
  "NET_PT = \<lparr>file_name = ''NET.PT'', file_type = [], file_size = 2048\<rparr>"

definition net_txt :: File where
  "net_txt = \<lparr>file_name = ''net.txt'', file_type = ''text/plain'', file_size = 10\<rparr>"

definition cat_png :: File where
  "cat_png = \<lparr>file_name = ''cat.png'', file_type = ''image/png'', file_size = 1536\<rparr>"

definition dog_jpg :: File where
  "dog_jpg = \<lparr>file_name = ''dog.jpg'', file_type = ''image/jpeg'', file_size = 1048575\<rparr>"

text \<open>A model and an image have been accepted.\<close>

definition loaded :: App where
  "loaded = handleImageUpload (handleModelUpload initial 7 net_pt) cat_png"

text \<open>An analysis of \<open>loaded\<close> is suspended.\<close>

definition busy :: App where
  "busy = runAnalysis loaded (1 / 2)"

text \<open>
  The model was removed while the analysis of \<open>busy\<close> was suspended, and the analysis has
  then finished: a result is shown and no model is stored.
\<close>

definition stale :: App where
  "stale = settle (clearModel busy) 0 (Resolved (3 / 4) (1 / 2) (1 / 2))"

text \<open>The analysis of \<open>busy\<close> has finished with nothing in between.\<close>

definition analysed :: App where
  "analysed = settle busy 0 (Resolved (3 / 4) (1 / 2) (1 / 2))"

text \<open>A rejected upload has set the error message while the analysis of \<open>busy\<close> is suspended.\<close>

definition busy_with_error :: App where
  "busy_with_error = handleModelUpload busy 8 net_txt"

definition stale_trace :: "event list" where
  "stale_trace = [SubmitModel 7 net_pt, SubmitImage cat_png, RunAnalysis (1 / 2), ClearModel,
                  Settle 0 (Resolved (3 / 4) (1 / 2) (1 / 2))]"

section \<open>Facts about the string helpers\<close>

lemma toLowerCase_char_dot: "toLowerCase_char c = CHR ''.'' \<longleftrightarrow> c = CHR ''.''"
  by (auto simp: toLowerCase_char_def split: if_splits)

lemma toLowerCase_char_p: "toLowerCase_char c = CHR ''p'' \<longleftrightarrow> c = CHR ''p'' \<or> c = CHR ''P''"
  by (auto simp: toLowerCase_char_def split: if_splits)

lemma toLowerCase_char_t: "toLowerCase_char c = CHR ''t'' \<longleftrightarrow> c = CHR ''t'' \<or> c = CHR ''T''"
  by (auto simp: toLowerCase_char_def split: if_splits)

text \<open>The check of line 55 accepts exactly the names that end in \<open>.pt\<close> in any mix of cases.\<close>

lemma endsWith_pt: "endsWith (toLowerCase s) ''.pt'' \<longleftrightarrow> ends_in_pt_ignoring_case s"
proof (cases "3 \<le> length s")
  case False
  then show ?thesis
    by (simp add: endsWith_def ends_in_pt_ignoring_case_def toLowerCase_def)
next
  case True
  define t where "t = drop (length s - 3) s"
  have "length t = 3"
    using True by (simp add: t_def)
  then obtain a b c where t: "t = [a, b, c]"
    by (metis length_0_conv length_Suc_conv numeral_3_eq_3)
  have code: "endsWith (toLowerCase s) ''.pt'' \<longleftrightarrow> toLowerCase t = ''.pt''"
    using True by (simp add: endsWith_def toLowerCase_def t_def drop_map numeral_3_eq_3)
  have spec: "ends_in_pt_ignoring_case s \<longleftrightarrow> t \<in> set [''.pt'', ''.pT'', ''.Pt'', ''.PT'']"
    using True by (simp add: ends_in_pt_ignoring_case_def t_def)
  have "toLowerCase [a, b, c] = ''.pt'' \<longleftrightarrow> [a, b, c] \<in> set [''.pt'', ''.pT'', ''.Pt'', ''.PT'']"
    by (auto simp: toLowerCase_def toLowerCase_char_dot toLowerCase_char_p toLowerCase_char_t)
  with code spec t show ?thesis
    by simp
qed

text \<open>The two recursive helpers, as rules that fire only once their test is decided.\<close>

lemma floor_log_small: "n < k \<Longrightarrow> floor_log k n = 0"
  by (simp add: floor_log.simps)

lemma floor_log_step: "2 \<le> k \<Longrightarrow> k \<le> n \<Longrightarrow> floor_log k n = Suc (floor_log k (n div k))"
  by (subst floor_log.simps) simp

lemma decimal_small: "n < 10 \<Longrightarrow> decimal n = [digit n]"
  by (simp add: decimal.simps)

lemma decimal_step: "10 \<le> n \<Longrightarrow> decimal n = decimal (n div 10) @ [digit n]"
  by (subst decimal.simps) simp

lemmas eval_defs = formatFileSize_def Let_def floor_log_small floor_log_step decimal_small
  decimal_step toFixed2_def number_string_def digit_def sizes_at_def sizes_def

lemmas file_defs = net_pt_def NET_PT_def net_txt_def cat_png_def dog_jpg_def

lemmas string_defs = toLowerCase_def toLowerCase_char_def endsWith_def startsWith_def

lemmas handler_defs = handleModelUpload_def handleImageUpload_def runAnalysis_def
  runAnalysis_resume_def settle_def clearModel_def clearImage_def

lemmas state_defs = initial_def initial_in_def loaded_def busy_def stale_def analysed_def
  busy_with_error_def

section \<open>The concrete states\<close>

lemma loaded_present: "model loaded \<noteq> None \<and> image_st loaded \<noteq> None"
  by (simp add: loaded_def handleModelUpload_def handleImageUpload_def file_defs string_defs)

lemma loaded_idle:
  "\<not> isAnalyzing loaded \<and> result loaded = None \<and> error loaded = None \<and> pending loaded = []"
  by (simp add: loaded_def initial_def initial_in_def handleModelUpload_def
      handleImageUpload_def file_defs string_defs)

lemma busy_eq:
  "busy = loaded\<lparr>isAnalyzing := True, error := None, result := None,
     pending := [\<lparr>seen_model = model loaded, seen_image = image_st loaded, delay = 3500\<rparr>]\<rparr>"
  using loaded_present loaded_idle by (simp add: busy_def runAnalysis_def)

lemma loaded_image:
  "image_st loaded = Some \<lparr>image_file = cat_png, url = 0, image_name = ''cat.png'',
      image_size = formatFileSize (floor_log 1024) 1536\<rparr> \<and>
   revoked loaded = [] \<and> nextUrl loaded = 1"
  by (simp add: loaded_def initial_def initial_in_def handleModelUpload_def
      handleImageUpload_def file_defs string_defs)

text \<open>\<open>stale\<close> is reached through the page.\<close>

lemma stale_reached: "ui_exec initial stale_trace = Some stale"
  by (simp add: stale_trace_def stale_def busy_def loaded_def ui_step_def analyzeDisabled_def
      handler_defs initial_def initial_in_def file_defs string_defs)

lemma stale_exec: "exec initial stale_trace = Some stale"
  by (simp add: stale_trace_def stale_def busy_def loaded_def handler_defs initial_def
      initial_in_def file_defs string_defs)

lemma stale_fields:
  "model stale = None \<and> result stale = Some (mockResult (3 / 4) (1 / 2) (1 / 2)) \<and>
   \<not> isAnalyzing stale \<and> pending stale = [] \<and>
   producedBy stale = Some \<lparr>seen_model = model loaded, seen_image = image_st loaded, delay = 3500\<rparr>"
  by (simp add: stale_def busy_eq settle_def runAnalysis_resume_def clearModel_def)

section \<open>Facts about formatFileSize\<close>

lemma formatFileSize_zero: "formatFileSize rt 0 = ''0 Bytes''"
  by (simp add: formatFileSize_def)

text \<open>\<open>floor_log k n\<close> is the exponent of the largest power of \<open>k\<close> not above \<open>n\<close>.\<close>

lemma floor_log_bounds:
  "2 \<le> k \<Longrightarrow> 0 < n \<Longrightarrow> k ^ floor_log k n \<le> n \<and> n < k ^ Suc (floor_log k n)"
proof (induction k n rule: floor_log.induct)
  case (1 k n)
  show ?case
  proof (cases "n < k")
    case True
    then show ?thesis using "1.prems" by (simp add: floor_log_small)
  next
    case False
    then have pos: "0 < n div k" using "1.prems" by (simp add: div_greater_zero_iff)
    have ih: "k ^ floor_log k (n div k) \<le> n div k \<and> n div k < k ^ Suc (floor_log k (n div k))"
      using "1.IH" False "1.prems" pos by simp
    have fl: "floor_log k n = Suc (floor_log k (n div k))"
      using False "1.prems" by (simp add: floor_log_step)
    have "k * k ^ floor_log k (n div k) \<le> k * (n div k)"
      using ih by simp
    also have "\<dots> \<le> n"
      by (rule times_div_less_eq_dividend)
    finally have lower: "k * k ^ floor_log k (n div k) \<le> n" .
    have "0 < k"
      using "1.prems" by simp
    then have upper: "n < k * k ^ Suc (floor_log k (n div k))"
      using ih by (simp add: div_less_iff_less_mult mult.commute)
    show ?thesis using lower upper by (simp add: fl)
  qed
qed

lemma floor_log_less:
  assumes "2 \<le> k" and "0 < n" and "n < k ^ m"
  shows "floor_log k n < m"
proof -
  have "k ^ floor_log k n \<le> n"
    using floor_log_bounds assms(1,2) by simp
  then have "k ^ floor_log k n < k ^ m"
    using assms(3) by simp
  then show ?thesis
    using assms(1) by (simp add: power_less_imp_less_exp)
qed

text \<open>
  Below \<open>1024^4\<close> bytes, in a runtime whose index is that of the exact logarithm, the unit is
  one of the four names and the number is the byte count divided by the largest power of
  1024 not above it, in hundredths.
\<close>

lemma formatFileSize_below_tebibyte:
  assumes "0 < bytes" and "bytes < 1024 ^ 4" and "rt bytes = floor_log 1024 bytes"
  shows "formatFileSize rt bytes =
           number_string (toFixed2 bytes (1024 ^ rt bytes)) @ '' '' @ sizes ! rt bytes \<and>
         rt bytes < length sizes \<and>
         1024 ^ rt bytes \<le> bytes \<and> bytes < 1024 ^ Suc (rt bytes)"
proof -
  have "floor_log 1024 bytes < 4"
    using assms(1,2) by (intro floor_log_less) simp_all
  then show ?thesis
    using assms(1,3) floor_log_bounds [of 1024 bytes]
    by (simp add: formatFileSize_def Let_def sizes_at_def sizes_def)
qed

text \<open>In every runtime, an index of 4 or more prints the unit \<open>undefined\<close>.\<close>

lemma formatFileSize_index_past_sizes:
  assumes "0 < bytes" and "4 \<le> rt bytes"
  shows "formatFileSize rt bytes =
           number_string (toFixed2 bytes (1024 ^ rt bytes)) @ '' undefined''"
  using assms by (simp add: formatFileSize_def Let_def sizes_at_def sizes_def)

section \<open>Invariants of the event system\<close>

text \<open>A property that every step preserves holds after every run.\<close>

lemma exec_invariant:
  assumes step: "\<And>w e w'. P w \<Longrightarrow> step w e = Some w' \<Longrightarrow> P w'"
  shows "P w \<Longrightarrow> exec w evs = Some w' \<Longrightarrow> P w'"
proof (induction evs arbitrary: w)
  case Nil
  then show ?case by simp
next
  case (Cons e evs)
  then show ?case
    by (auto split: option.splits intro: step)
qed

lemma list_all_remove_nth: "list_all P xs \<Longrightarrow> list_all P (take k xs @ drop (Suc k) xs)"
  by (auto simp: list_all_iff dest: in_set_takeD in_set_dropD)

text \<open>Suspended calls and the producer of the result.\<close>

lemma calls_inv_initial: "calls_inv (initial_in rt)"
  by (simp add: calls_inv_def initial_in_def)

lemma calls_inv_handleModelUpload: "calls_inv w \<Longrightarrow> calls_inv (handleModelUpload w now f)"
  by (simp add: calls_inv_def handleModelUpload_def split: option.splits)

lemma calls_inv_handleImageUpload: "calls_inv w \<Longrightarrow> calls_inv (handleImageUpload w f)"
  by (simp add: calls_inv_def handleImageUpload_def split: option.splits)

lemma calls_inv_clearModel: "calls_inv w \<Longrightarrow> calls_inv (clearModel w)"
  by (simp add: calls_inv_def clearModel_def split: option.splits)

lemma calls_inv_clearImage: "calls_inv w \<Longrightarrow> calls_inv (clearImage captured w)"
  by (simp add: calls_inv_def clearImage_def split: option.splits)

lemma calls_inv_runAnalysis: "calls_inv w \<Longrightarrow> calls_inv (runAnalysis w rd)"
  by (auto simp: calls_inv_def runAnalysis_def saw_both_def split: option.splits)

lemma calls_inv_settle:
  assumes "calls_inv w" and "k < length (pending w)"
  shows "calls_inv (settle w k oc)"
proof -
  have all: "list_all saw_both (pending w)"
    using assms(1) by (simp add: calls_inv_def)
  then have rest: "list_all saw_both (take k (pending w) @ drop (Suc k) (pending w))"
    by (rule list_all_remove_nth)
  have kth: "saw_both (pending w ! k)"
    using all assms(2) by (simp add: list_all_length)
  show ?thesis
  proof (cases oc)
    case (Resolved ro rc rp)
    then show ?thesis
      using rest kth
      by (simp add: calls_inv_def settle_def runAnalysis_resume_def del: list_all_append)
  next
    case Threw
    then show ?thesis
      using rest assms(1)
      by (simp add: calls_inv_def settle_def runAnalysis_resume_def del: list_all_append
          split: option.splits)
  qed
qed

lemma calls_inv_step: "calls_inv w \<Longrightarrow> step w e = Some w' \<Longrightarrow> calls_inv w'"
proof (cases e)
  case DismissError
  assume "calls_inv w" "step w e = Some w'"
  with DismissError show ?thesis by (auto simp: calls_inv_def split: option.splits)
qed (auto simp: calls_inv_handleModelUpload calls_inv_handleImageUpload calls_inv_clearModel
      calls_inv_clearImage calls_inv_runAnalysis calls_inv_settle split: if_splits)

lemma calls_inv_session_inv: "calls_inv w \<Longrightarrow> session_inv w"
  by (auto simp: calls_inv_def session_inv_def split: option.splits)



text \<open>The same for runs through the page.\<close>

text \<open>Every run through the page is a run of the handlers.\<close>

lemma ui_exec_exec: "ui_exec w evs = Some w' \<Longrightarrow> exec w evs = Some w'"
  by (induction evs arbitrary: w) (auto simp: ui_step_def split: option.splits if_splits)

lemma ui_exec_invariant:
  assumes step: "\<And>w e w'. P w \<Longrightarrow> ui_step w e = Some w' \<Longrightarrow> P w'"
  shows "P w \<Longrightarrow> ui_exec w evs = Some w' \<Longrightarrow> P w'"
proof (induction evs arbitrary: w)
  case Nil
  then show ?case by simp
next
  case (Cons e evs)
  then show ?case
    by (auto split: option.splits intro: step)
qed

text \<open>\<open>handleModelUpload\<close> never touches the result.\<close>

lemma handleModelUpload_result: "result (handleModelUpload w now f) = result w"
  by (simp add: handleModelUpload_def)

text \<open>
  Through the page an image is uploaded only while none is stored, so every URL that is no
  longer the stored image's has been revoked by \<open>clearImage\<close>.
\<close>

lemma no_orphan_url_initial: "no_orphan_url (initial_in rt)"
  by (simp add: no_orphan_url_def list_all_iff initial_in_def)

lemma no_orphan_url_step:
  assumes "no_orphan_url w" and "ui_step w e = Some w'"
  shows "no_orphan_url w'"
proof (cases e)
  case (SubmitImage f)
  then have "image_st w = None" and w': "w' = handleImageUpload w f"
    using assms(2) by (auto simp: ui_step_def split: if_splits)
  then show ?thesis
    using assms(1)
    by (auto simp: no_orphan_url_def list_all_iff handleImageUpload_def less_Suc_eq)
next
  case ClearImage
  then show ?thesis
    using assms
    by (auto simp: no_orphan_url_def list_all_iff ui_step_def clearImage_def
        split: if_splits option.splits)
qed (use assms in \<open>auto simp: no_orphan_url_def list_all_iff ui_step_def handleModelUpload_def
      clearModel_def runAnalysis_def settle_def runAnalysis_resume_def
      split: if_splits option.splits outcome.splits\<close>)

lemma ui_exec_no_orphan_url: "ui_exec (initial_in rt) evs = Some w \<Longrightarrow> no_orphan_url w"
  using no_orphan_url_step no_orphan_url_initial by (rule ui_exec_invariant)

section \<open>Byte-size formatting\<close>

text \<open>
  C2. \<open>formatSize\<close> is claimed to end in one of \<open>Bytes\<close>, \<open>KB\<close>, \<open>MB\<close>, \<open>GB\<close> for every byte
  count. At \<open>2 * 1024^4\<close> bytes the quotient of the logarithms is 4.1 and the index \<open>i\<close> is 4,
  past the end of \<open>sizes\<close>: the unit printed is \<open>undefined\<close>, with exact logarithms and in
  every runtime that computes the index 4 there.
\<close>

theorem formatFileSize_two_tebibytes:
  "formatFileSize (floor_log 1024) 2199023255552 = ''2 undefined'' \<and>
   (rt 2199023255552 = 4 \<longrightarrow> formatFileSize rt 2199023255552 = ''2 undefined'')"
  by (simp add: eval_defs)

theorem formatFileSize_two_tebibytes_witness:
  "floor_log 1024 2199023255552 = 4 \<and>
   formatFileSize (floor_log 1024) 2199023255552 = ''2 undefined''"
proof -
  have index: "floor_log 1024 2199023255552 = 4"
    by (simp add: floor_log_small floor_log_step)
  show ?thesis
    using index formatFileSize_two_tebibytes [where rt = "floor_log 1024"]
    by simp
qed

section \<open>Upload validation\<close>

text \<open>
  C6. \<open>submitModel\<close> rejects every file whose name does not end in \<open>.pt\<close>, compared without
  regard to case: the error message is set and the stored model is the one from before.
  Every file whose name does end in it replaces the stored model, and the error is cleared.
\<close>

theorem handleModelUpload_suffix:
  "(\<not> ends_in_pt_ignoring_case (file_name f) \<longrightarrow>
      error (handleModelUpload w now f) = Some ''Please upload a valid PyTorch model file (.pt)'' \<and>
      model (handleModelUpload w now f) = model w) \<and>
   (ends_in_pt_ignoring_case (file_name f) \<longrightarrow>
      model (handleModelUpload w now f) =
        Some \<lparr>model_file = f, model_name = file_name f,
              model_size = formatFileSize (logFloor w) (file_size f), uploadedAt = now\<rparr> \<and>
      error (handleModelUpload w now f) = None)"
  by (simp add: handleModelUpload_def endsWith_pt)

theorem handleModelUpload_suffix_witness:
  "\<not> ends_in_pt_ignoring_case (file_name net_txt) \<and>
   error (handleModelUpload loaded 9 net_txt) = Some ''Please upload a valid PyTorch model file (.pt)'' \<and>
   model (handleModelUpload loaded 9 net_txt) = model loaded \<and>
   model loaded \<noteq> None \<and>
   ends_in_pt_ignoring_case (file_name NET_PT) \<and>
   model (handleModelUpload initial 9 NET_PT) =
     Some \<lparr>model_file = NET_PT, model_name = ''NET.PT'', model_size = ''2 KB'', uploadedAt = 9\<rparr> \<and>
   error (handleModelUpload initial 9 NET_PT) = None"
proof -
  have rejected: "\<not> ends_in_pt_ignoring_case (file_name net_txt)"
    by (simp add: ends_in_pt_ignoring_case_def net_txt_def)
  have accepted: "ends_in_pt_ignoring_case (file_name NET_PT)"
    by (simp add: ends_in_pt_ignoring_case_def NET_PT_def)
  have stored: "model loaded \<noteq> None"
    by (simp add: loaded_def handleModelUpload_def handleImageUpload_def file_defs string_defs)
  have size: "formatFileSize (logFloor initial) (file_size NET_PT) = ''2 KB''"
    by (simp add: NET_PT_def initial_def initial_in_def eval_defs)
  have name: "file_name NET_PT = ''NET.PT''"
    by (simp add: NET_PT_def)
  show ?thesis
    using rejected accepted stored size name
      handleModelUpload_suffix [of net_txt loaded 9]
      handleModelUpload_suffix [of NET_PT initial 9]
    by simp
qed

text \<open>
  C7. A file that fails validation only sets the error message, in the same call: the stored
  model, image and result and the busy flag are what they were, for both upload handlers.
\<close>

theorem upload_rejected_frame:
  "(\<not> endsWith (toLowerCase (file_name f)) ''.pt'' \<longrightarrow>
      handleModelUpload w now f = w\<lparr>error := Some ''Please upload a valid PyTorch model file (.pt)''\<rparr> \<and>
      model (handleModelUpload w now f) = model w \<and>
      image_st (handleModelUpload w now f) = image_st w \<and>
      result (handleModelUpload w now f) = result w \<and>
      isAnalyzing (handleModelUpload w now f) = isAnalyzing w) \<and>
   (\<not> startsWith (file_type f) ''image/'' \<longrightarrow>
      handleImageUpload w f = w\<lparr>error := Some ''Please upload a valid image file''\<rparr> \<and>
      model (handleImageUpload w f) = model w \<and>
      image_st (handleImageUpload w f) = image_st w \<and>
      result (handleImageUpload w f) = result w \<and>
      isAnalyzing (handleImageUpload w f) = isAnalyzing w)"
  by (simp add: handleModelUpload_def handleImageUpload_def)

theorem upload_rejected_frame_witness:
  "\<not> endsWith (toLowerCase (file_name net_txt)) ''.pt'' \<and>
   \<not> startsWith (file_type net_txt) ''image/'' \<and>
   handleModelUpload analysed 9 net_txt =
     analysed\<lparr>error := Some ''Please upload a valid PyTorch model file (.pt)''\<rparr> \<and>
   handleImageUpload analysed net_txt = analysed\<lparr>error := Some ''Please upload a valid image file''\<rparr> \<and>
   model analysed \<noteq> None \<and> image_st analysed \<noteq> None \<and> result analysed \<noteq> None"
proof -
  have no_pt: "\<not> endsWith (toLowerCase (file_name net_txt)) ''.pt''"
    by (simp add: net_txt_def string_defs)
  have no_image: "\<not> startsWith (file_type net_txt) ''image/''"
    by (simp add: net_txt_def string_defs)
  have present: "model analysed \<noteq> None \<and> image_st analysed \<noteq> None \<and> result analysed \<noteq> None"
    by (simp add: state_defs handler_defs file_defs string_defs)
  show ?thesis
    using no_pt no_image present upload_rejected_frame [of net_txt analysed 9]
    by simp
qed

text \<open>
  C1. A successful \<open>submitModel\<close> is claimed to clear the stored result, as \<open>submitImage\<close>,
  \<open>clearModel\<close> and \<open>clearImage\<close> do. \<open>handleModelUpload\<close> has no \<^verbatim>\<open>setResult(null)\<close>: in
  \<open>stale\<close>, which the page reaches by removing the model while an analysis is suspended,
  the page offers the model upload, and the accepted upload leaves the old result in place.
\<close>

theorem handleModelUpload_keeps_result:
  "ui_exec initial stale_trace = Some stale \<and>
   model stale = None \<and> result stale = Some (mockResult (3 / 4) (1 / 2) (1 / 2)) \<and>
   ui_offers stale (SubmitModel 9 NET_PT) \<and>
   model (handleModelUpload stale 9 NET_PT) \<noteq> None \<and>
   error (handleModelUpload stale 9 NET_PT) = None \<and>
   result (handleModelUpload stale 9 NET_PT) = Some (mockResult (3 / 4) (1 / 2) (1 / 2))"
  using stale_reached stale_fields
  by (simp add: handleModelUpload_def NET_PT_def string_defs)

text \<open>
  C4, as stated: a successful \<open>submitImage\<close> that replaces a stored image releases the
  preview handle of the previous one. \<open>handleImageUpload\<close> never calls
  \<^verbatim>\<open>URL.revokeObjectURL\<close>: called on \<open>loaded\<close>, whose image holds URL 0, it stores the new
  image under URL 1 and the log of revoked URLs stays empty.
\<close>

theorem handleImageUpload_keeps_old_url:
  "map_option url (image_st loaded) = Some 0 \<and>
   startsWith (file_type dog_jpg) ''image/'' \<and>
   map_option url (image_st (handleImageUpload loaded dog_jpg)) = Some 1 \<and>
   revoked (handleImageUpload loaded dog_jpg) = []"
  using loaded_image by (simp add: handleImageUpload_def dog_jpg_def startsWith_def)

text \<open>
  C4, amended: a successful \<open>submitImage\<close> stores the new image under a newly created preview
  handle and clears the error and any stored result; it releases no handle. The page
  offers the image upload only while no image is stored, so there no handle is superseded.
\<close>

theorem handleImageUpload_accepts:
  assumes "startsWith (file_type f) ''image/''"
  shows "image_st (handleImageUpload w f) =
           Some \<lparr>image_file = f, url = nextUrl w, image_name = file_name f,
                 image_size = formatFileSize (logFloor w) (file_size f)\<rparr> \<and>
         nextUrl (handleImageUpload w f) = Suc (nextUrl w) \<and>
         error (handleImageUpload w f) = None \<and>
         result (handleImageUpload w f) = None \<and>
         revoked (handleImageUpload w f) = revoked w \<and>
         (ui_offers w (SubmitImage f) \<longleftrightarrow> image_st w = None)"
  using assms by (simp add: handleImageUpload_def)

theorem handleImageUpload_accepts_witness:
  "startsWith (file_type dog_jpg) ''image/'' \<and>
   image_st (handleImageUpload analysed dog_jpg) =
     Some \<lparr>image_file = dog_jpg, url = 1, image_name = ''dog.jpg'', image_size = ''1024 KB''\<rparr> \<and>
   result analysed \<noteq> None \<and>
   result (handleImageUpload analysed dog_jpg) = None \<and>
   error (handleImageUpload analysed dog_jpg) = None \<and>
   revoked (handleImageUpload analysed dog_jpg) = [] \<and>
   \<not> ui_offers analysed (SubmitImage dog_jpg) \<and>
   ui_offers initial (SubmitImage dog_jpg)"
proof -
  have ok: "startsWith (file_type dog_jpg) ''image/''"
    by (simp add: dog_jpg_def startsWith_def)
  have a: "nextUrl analysed = 1 \<and> revoked analysed = [] \<and> result analysed \<noteq> None \<and>
      image_st analysed \<noteq> None"
    using loaded_image by (simp add: analysed_def busy_eq settle_def runAnalysis_resume_def)
  have i: "image_st initial = None"
    by (simp add: initial_def initial_in_def)
  have sz: "formatFileSize (logFloor analysed) (file_size dog_jpg) = ''1024 KB''"
    by (simp add: dog_jpg_def analysed_def busy_eq loaded_def settle_def runAnalysis_resume_def
        handleModelUpload_def handleImageUpload_def initial_def initial_in_def file_defs
        string_defs eval_defs)
  have nm: "file_name dog_jpg = ''dog.jpg''"
    by (simp add: dog_jpg_def)
  show ?thesis
    using ok a i sz nm
      handleImageUpload_accepts [where f = dog_jpg and w = analysed]
      handleImageUpload_accepts [where f = dog_jpg and w = initial]
    by simp
qed

section \<open>The mock analysis\<close>

text \<open>
  C3, as stated: \<open>runAnalysis\<close> changes nothing unless a model and an image are present and
  no analysis is running. The function tests the first two only. In \<open>busy\<close> an analysis is
  suspended and a further call suspends a second one; in \<open>busy_with_error\<close> the call also
  clears the error message.
\<close>

theorem runAnalysis_ignores_busy_flag:
  "isAnalyzing busy \<and> length (pending busy) = 1 \<and>
   length (pending (runAnalysis busy (1 / 4))) = 2 \<and>
   isAnalyzing busy_with_error \<and> error busy_with_error \<noteq> None \<and>
   error (runAnalysis busy_with_error (1 / 4)) = None \<and>
   runAnalysis busy_with_error (1 / 4) \<noteq> busy_with_error"
proof -
  have b: "isAnalyzing busy \<and> length (pending busy) = 1 \<and> model busy \<noteq> None \<and>
      image_st busy \<noteq> None"
    using loaded_present by (simp add: busy_eq)
  have e: "busy_with_error =
      busy\<lparr>error := Some ''Please upload a valid PyTorch model file (.pt)''\<rparr>"
    by (simp add: busy_with_error_def handleModelUpload_def net_txt_def string_defs)
  have r: "error (runAnalysis busy_with_error (1 / 4)) = None"
    using b by (simp add: e runAnalysis_def)
  have "error busy_with_error \<noteq> None"
    by (simp add: e)
  with r have ne: "runAnalysis busy_with_error (1 / 4) \<noteq> busy_with_error"
    by metis
  show ?thesis
    using b r ne by (simp add: e runAnalysis_def)
qed

text \<open>
  C3, amended: \<open>runAnalysis\<close> returns the state unchanged when the model or the image is
  absent; with both present it sets the busy flag, clears error and result and suspends,
  whatever the busy flag was. The busy flag is tested by the button that calls it: the page
  offers the click exactly when both are present and no analysis is running, and delivers
  nothing otherwise.
\<close>

theorem runAnalysis_guard:
  "(model w = None \<or> image_st w = None \<longrightarrow> runAnalysis w rd = w) \<and>
   (model w \<noteq> None \<and> image_st w \<noteq> None \<longrightarrow>
      runAnalysis w rd =
        w\<lparr>isAnalyzing := True, error := None, result := None,
          pending := pending w @
            [\<lparr>seen_model = model w, seen_image = image_st w, delay = 2000 + rd * 3000\<rparr>]\<rparr>) \<and>
   (ui_offers w (RunAnalysis rd) \<longleftrightarrow>
      model w \<noteq> None \<and> image_st w \<noteq> None \<and> \<not> isAnalyzing w) \<and>
   (\<not> ui_offers w (RunAnalysis rd) \<longrightarrow> ui_step w (RunAnalysis rd) = None)"
  by (auto simp: runAnalysis_def analyzeDisabled_def ui_step_def)

theorem runAnalysis_guard_witness:
  "model initial = None \<and> runAnalysis initial (1 / 2) = initial \<and>
   model loaded \<noteq> None \<and> image_st loaded \<noteq> None \<and>
   ui_offers loaded (RunAnalysis (1 / 2)) \<and>
   isAnalyzing (runAnalysis loaded (1 / 2)) \<and>
   isAnalyzing busy \<and> \<not> ui_offers busy (RunAnalysis (1 / 2)) \<and>
   ui_step busy (RunAnalysis (1 / 2)) = None"
proof -
  have i: "model initial = None"
    by (simp add: initial_def initial_in_def)
  have b: "isAnalyzing busy"
    by (simp add: busy_eq)
  have l: "isAnalyzing (runAnalysis loaded (1 / 2))"
    using loaded_present runAnalysis_guard [where w = loaded and rd = "1 / 2"]
    by simp
  show ?thesis
    using i b l loaded_present loaded_idle
      runAnalysis_guard [where w = initial and rd = "1 / 2"]
      runAnalysis_guard [where w = busy and rd = "1 / 2"]
      runAnalysis_guard [where w = loaded and rd = "1 / 2"]
    by simp
qed

text \<open>
  C5. A call that passed its guard and ran to the end of its \<^verbatim>\<open>try\<close> block stores
  \<^verbatim>\<open>mockResult\<close>: its \<open>isOriginal\<close> is a truth value, its \<open>confidence\<close> lies in \<open>[0.75, 0.99]\<close>
  and its \<open>processingTime\<close> in \<open>[1.2, 3.5]\<close>, for random values in \<open>[0, 1)\<close>. The stored
  result is the same whatever value \<open>rd\<close> set the delay, and the same in whatever state
  \<open>w'\<close> the call is resumed. Numbers are real numbers here, not floating-point ones.
\<close>

theorem runAnalysis_result_ranges:
  assumes "model w \<noteq> None" and "image_st w \<noteq> None"
    and "0 \<le> rc" and "rc < 1" and "0 \<le> rp" and "rp < 1"
  shows "result (runAnalysis_resume (runAnalysis w rd) (Resolved ro rc rp)) =
           Some (mockResult ro rc rp) \<and>
         isOriginal (mockResult ro rc rp) \<in> {True, False} \<and>
         0.75 \<le> confidence (mockResult ro rc rp) \<and> confidence (mockResult ro rc rp) \<le> 0.99 \<and>
         1.2 \<le> processingTime (mockResult ro rc rp) \<and>
         processingTime (mockResult ro rc rp) \<le> 3.5 \<and>
         result (runAnalysis_resume (runAnalysis w rd') (Resolved ro rc rp)) =
           result (runAnalysis_resume (runAnalysis w rd) (Resolved ro rc rp)) \<and>
         result (runAnalysis_resume w' (Resolved ro rc rp)) = Some (mockResult ro rc rp)"
  using assms by (auto simp: runAnalysis_def runAnalysis_resume_def mockResult_def)

theorem runAnalysis_result_ranges_witness:
  "model loaded \<noteq> None \<and> image_st loaded \<noteq> None \<and> (0::real) \<le> 1 / 2 \<and> (1 / 2 :: real) < 1 \<and>
   result (runAnalysis_resume busy (Resolved (3 / 4) (1 / 2) (1 / 2))) =
     Some \<lparr>isOriginal = True, confidence = 0.87, processedImageUrl = None,
           processingTime = 2.35\<rparr> \<and>
   (0.75::real) \<le> 0.87 \<and> (0.87::real) \<le> 0.99 \<and> (1.2::real) \<le> 2.35 \<and> (2.35::real) \<le> 3.5"
proof -
  have draw: "(0::real) \<le> 1 / 2 \<and> (1 / 2 :: real) < 1"
    by simp
  have mock: "mockResult (3 / 4) (1 / 2) (1 / 2) =
      \<lparr>isOriginal = True, confidence = 0.87, processedImageUrl = None, processingTime = 2.35\<rparr>"
    by (simp add: mockResult_def)
  show ?thesis
    using loaded_present draw mock
      runAnalysis_result_ranges [where w = loaded and rc = "1 / 2" and rp = "1 / 2"
        and rd = "1 / 2" and ro = "3 / 4" and rd' = "1 / 2" and w' = busy]
    by (simp add: busy_def)
qed

text \<open>
  C10. When the \<^verbatim>\<open>try\<close> block of a call that passed its guard throws, the \<^verbatim>\<open>catch\<close> and
  \<^verbatim>\<open>finally\<close> blocks leave the result absent, set the error message
  \<open>Analysis failed. Please try again.\<close> and clear the busy flag. In any state the resumed
  call ends with the busy flag cleared, and a throw leaves the result as it was.
\<close>

theorem runAnalysis_failure:
  assumes "model w \<noteq> None" and "image_st w \<noteq> None"
  shows "isAnalyzing (runAnalysis w rd) \<and>
         result (runAnalysis_resume (runAnalysis w rd) Threw) = None \<and>
         error (runAnalysis_resume (runAnalysis w rd) Threw) =
           Some ''Analysis failed. Please try again.'' \<and>
         \<not> isAnalyzing (runAnalysis_resume (runAnalysis w rd) Threw) \<and>
         \<not> isAnalyzing (runAnalysis_resume w' oc) \<and>
         result (runAnalysis_resume w' Threw) = result w'"
  using assms by (auto simp: runAnalysis_def runAnalysis_resume_def split: outcome.splits)

theorem runAnalysis_failure_witness:
  "model loaded \<noteq> None \<and> image_st loaded \<noteq> None \<and>
   isAnalyzing busy \<and>
   result (runAnalysis_resume busy Threw) = None \<and>
   error (runAnalysis_resume busy Threw) = Some ''Analysis failed. Please try again.'' \<and>
   \<not> isAnalyzing (runAnalysis_resume busy Threw)"
  using loaded_present
    runAnalysis_failure [where w = loaded and rd = "1 / 2" and w' = busy and oc = Threw]
  by (simp add: busy_def)

section \<open>Clearing and the session invariant\<close>




text \<open>
  C9. After any sequence of handler calls and resumptions from the initial state, a stored
  result was produced by a call of \<open>runAnalysis\<close> that saw a model and an image when it
  started, and the busy flag is set only while a call is suspended; every further step
  keeps both.
\<close>

theorem session_invariant:
  assumes "exec (initial_in rt) evs = Some w"
  shows "session_inv w \<and> (\<forall>e w'. step w e = Some w' \<longrightarrow> session_inv w')"
proof -
  have "calls_inv w"
    using calls_inv_step calls_inv_initial assms by (rule exec_invariant)
  then show ?thesis
    by (blast intro: calls_inv_session_inv calls_inv_step)
qed

theorem session_invariant_witness:
  "exec initial stale_trace = Some stale \<and> session_inv stale \<and>
   result stale \<noteq> None \<and>
   map_option saw_both (producedBy stale) = Some True \<and>
   step stale (RunAnalysis (1 / 2)) = Some stale \<and>
   step stale (SubmitModel 9 NET_PT) = Some (handleModelUpload stale 9 NET_PT) \<and>
   session_inv (handleModelUpload stale 9 NET_PT)"
proof -
  have produced: "map_option saw_both (producedBy stale) = Some True"
    using loaded_present stale_fields by (simp add: saw_both_def)
  have noop: "runAnalysis stale (1 / 2) = stale"
    using stale_fields by (simp add: runAnalysis_def)
  have inv: "session_inv stale"
    and next_inv: "\<And>e w'. step stale e = Some w' \<Longrightarrow> session_inv w'"
    using session_invariant [OF stale_exec [unfolded initial_def]] by blast+
  have "session_inv (handleModelUpload stale 9 NET_PT)"
    by (rule next_inv [of "SubmitModel 9 NET_PT"]) simp
  then show ?thesis
    using stale_exec stale_fields produced noop inv
    by simp
qed

end
